theory Spec2Isabelle
  imports Main
begin

section \<open>JavaScript values\<close>

text \<open>
  A JavaScript value that may be \<^verbatim>\<open>undefined\<close> or \<^verbatim>\<open>null\<close> instead of holding
  something of the expected type. Both are falsy; a property read on either raises a
  \<^verbatim>\<open>TypeError\<close>.
\<close>

datatype 'a maybe = Undefined | Null | Defined 'a

text \<open>
  What a \<^verbatim>\<open>throw\<close> hands to the caller: an \<^verbatim>\<open>Error\<close> with its message, or the
  \<^verbatim>\<open>TypeError\<close> of a property read on \<^verbatim>\<open>undefined\<close>/\<^verbatim>\<open>null\<close>.
\<close>

datatype error = Error string | TypeError

text \<open>
  The value of \<^verbatim>\<open>b && v\<close> for a boolean \<^verbatim>\<open>b\<close>: \<^verbatim>\<open>false\<close> itself, or \<^verbatim>\<open>v\<close>.
\<close>

datatype 'a or_false = JsFalse | Val 'a

text \<open>
  \<^verbatim>\<open>n >= t\<close> for a number \<^verbatim>\<open>n\<close>: \<^verbatim>\<open>undefined\<close> converts to \<^verbatim>\<open>NaN\<close>, and every
  comparison with \<^verbatim>\<open>NaN\<close> is \<^verbatim>\<open>false\<close>; \<^verbatim>\<open>null\<close> converts to 0.
\<close>

fun js_ge :: "int \<Rightarrow> int maybe \<Rightarrow> bool" where
  "js_ge n (Defined t) = (n \<ge> t)"
| "js_ge n Null = (n \<ge> 0)"
| "js_ge n Undefined = False"

text \<open>Truthiness of a string that may be missing: the empty string is falsy.\<close>

fun truthy :: "string maybe \<Rightarrow> bool" where
  "truthy (Defined s) = (s \<noteq> [])"
| "truthy Null = False"
| "truthy Undefined = False"

text \<open>
  \<^verbatim>\<open>Array.prototype.find\<close>: the first element the predicate holds for, or
  \<^verbatim>\<open>undefined\<close>.
\<close>

fun array_find :: "('a \<Rightarrow> bool) \<Rightarrow> 'a list \<Rightarrow> 'a maybe" where
  "array_find predicate [] = Undefined"
| "array_find predicate (x # xs) = (if predicate x then Defined x else array_find predicate xs)"

text \<open>
  \<^verbatim>\<open>Array.prototype.map\<close> with a callback \<^verbatim>\<open>(element, index)\<close> that may throw: the
  first exception ends the call.
\<close>

fun array_map :: "('a \<Rightarrow> nat \<Rightarrow> error + 'b) \<Rightarrow> nat \<Rightarrow> 'a list \<Rightarrow> error + 'b list" where
  "array_map callback i [] = Inr []"
| "array_map callback i (x # xs) =
     (case callback x i of
        Inl e \<Rightarrow> Inl e
      | Inr y \<Rightarrow>
          (case array_map callback (Suc i) xs of Inl e \<Rightarrow> Inl e | Inr ys \<Rightarrow> Inr (y # ys)))"

text \<open>
  \<^verbatim>\<open>String.prototype.toLowerCase\<close> on the characters a \<open>string\<close> holds: the
  letters \<^verbatim>\<open>A\<close> to \<^verbatim>\<open>Z\<close> (codes 65 to 90) move to \<^verbatim>\<open>a\<close> to \<^verbatim>\<open>z\<close>, every other
  character stays. The adapter compares the result with \<^verbatim>\<open>'image'\<close> only, and a string
  with a character outside ASCII has no lower case equal to that, in JavaScript as here.
\<close>

definition toLowerCaseChar :: "char \<Rightarrow> char" where
  "toLowerCaseChar c =
     (if (65::nat) \<le> of_char c \<and> of_char c \<le> (90::nat)
      then char_of (of_char c + (32::nat)) else c)"

definition toLowerCase :: "string \<Rightarrow> string" where
  "toLowerCase s = map toLowerCaseChar s"

text \<open>
  \<^verbatim>\<open>Array.prototype.sort(compareFn)\<close>. ECMAScript 2019 makes the sort stable, and for
  a consistent comparator a stable sort has one result: the elements in the order of the
  comparator, equal ones in their input order. An insertion sort that puts each element
  before the first one it does not exceed computes it. The array is sorted in place; the
  callers below store the result back.
\<close>

fun insert_sorted :: "('a \<Rightarrow> 'a \<Rightarrow> int) \<Rightarrow> 'a \<Rightarrow> 'a list \<Rightarrow> 'a list" where
  "insert_sorted compareFn x [] = [x]"
| "insert_sorted compareFn x (y # ys) =
     (if compareFn x y \<le> 0 then x # y # ys else y # insert_sorted compareFn x ys)"

definition array_sort :: "('a \<Rightarrow> 'a \<Rightarrow> int) \<Rightarrow> 'a list \<Rightarrow> 'a list" where
  "array_sort compareFn xs = foldr (insert_sorted compareFn) xs []"

text \<open>
  \<^verbatim>\<open>new Map(entries)\<close>: entries are set one after the other; setting a key the map
  already holds replaces the value and keeps the key's position.
\<close>

fun map_set :: "'k \<Rightarrow> 'v \<Rightarrow> ('k \<times> 'v) list \<Rightarrow> ('k \<times> 'v) list" where
  "map_set k v [] = [(k, v)]"
| "map_set k v (p # ps) = (if fst p = k then (k, v) # ps else p # map_set k v ps)"

definition new_Map :: "('k \<times> 'v) list \<Rightarrow> ('k \<times> 'v) list" where
  "new_Map entries = foldl (\<lambda>m (k, v). map_set k v m) [] entries"

text \<open>
  A property key made from a value that may be missing: \<^verbatim>\<open>null\<close> and
  \<^verbatim>\<open>undefined\<close> become the strings of their names.
\<close>

fun toPropertyKey :: "string maybe \<Rightarrow> string" where
  "toPropertyKey (Defined s) = s"
| "toPropertyKey Null = ''null''"
| "toPropertyKey Undefined = ''undefined''"

text \<open>
  \<^verbatim>\<open>Object.fromEntries(map)\<close>: the entries are assigned in the map's order, a later
  assignment to the same property key replacing an earlier one. The object is the map
  from property keys to values.
\<close>

definition fromEntries :: "(string maybe \<times> 'v) list \<Rightarrow> (string \<rightharpoonup> 'v)" where
  "fromEntries entries = foldl (\<lambda>obj (k, v). obj(toPropertyKey k \<mapsto> v)) Map.empty entries"


section \<open>The media resource adapter\<close>

subsection \<open>Data\<close>

text \<open>
  One size variant of an image, with the properties the adapter reads. Widths and heights
  are whole numbers of pixels.
\<close>

record ImageUrl =
  url :: string
  imageName :: "string maybe"
  mimeType :: string
  width :: int
  height :: int

record Author =
  displayName :: string
  url :: "string maybe"

text \<open>
  The provider's media object (\<^verbatim>\<open>Media3pMedia\<close>). \<open>imageUrls\<close> is an array for an
  image and \<^verbatim>\<open>undefined\<close> otherwise; \<open>author\<close> is tested for being there.
\<close>

record Media3pMedia =
  name :: string
  provider :: string
  type :: string
  author :: "Author maybe"
  title :: "string maybe"
  description :: "string maybe"
  createTime :: string
  updateTime :: string
  registerUsageUrl :: string
  imageUrls :: "ImageUrl list maybe"

text \<open>An entry of the \<^verbatim>\<open>sizes\<close> object (\<open>file'\<close> is the property \<^verbatim>\<open>file\<close>).\<close>

record Size =
  file' :: string
  source_url :: string
  mime_type :: string
  width :: int
  height :: int

record Attribution =
  author :: Author

text \<open>
  The object literal that \<^verbatim>\<open>getResourceFromMedia3p\<close> builds and passes to
  \<^verbatim>\<open>createResource\<close> (\<open>id'\<close> and \<open>length'\<close> are the properties \<^verbatim>\<open>id\<close> and
  \<^verbatim>\<open>length\<close>). The properties the adapter fills with \<^verbatim>\<open>null\<close> hold \<open>Null\<close>.
  A record has each of its fields; for \<open>attribution\<close>, where it matters whether the
  object has the property at all, \<open>None\<close> is an object without the property and
  \<open>Some v\<close> an object whose property holds \<open>v\<close>, be it \<^verbatim>\<open>null\<close> or \<^verbatim>\<open>undefined\<close>.
\<close>

record Resource =
  type :: string
  mimeType :: string
  creationDate :: string
  src :: string
  width :: int
  height :: int
  poster :: "string maybe"
  posterId :: "int maybe"
  id' :: string
  length' :: "int maybe"
  lengthFormatted :: "string maybe"
  title :: "string maybe"
  alt :: "string maybe"
  local :: bool
  sizes :: "string \<rightharpoonup> Size"
  attribution :: "Attribution maybe option"

subsection \<open>Operations\<close>

text \<open>
  \<^verbatim>\<open>getUrls\<close>: the \<^verbatim>\<open>sizes\<close> object of an image, keyed by the variants' names.
  Reading \<^verbatim>\<open>m.imageUrls.map\<close> on a missing array is a \<^verbatim>\<open>TypeError\<close>.
\<close>

definition getUrls :: "Media3pMedia \<Rightarrow> error + (string \<rightharpoonup> Size)" where
  "getUrls m =
     (if toLowerCase (Media3pMedia.type m) = ''image'' then
        (case imageUrls m of
           Defined us \<Rightarrow>
             Inr (fromEntries (new_Map (map (\<lambda>u.
               (imageName u,
                \<lparr>file' = name m,
                 source_url = ImageUrl.url u,
                 mime_type = ImageUrl.mimeType u,
                 Size.width = ImageUrl.width u,
                 Size.height = ImageUrl.height u\<rparr>)) us)))
         | _ \<Rightarrow> Inl TypeError)
      else Inl (Error ''Invalid media type.''))"

text \<open>
  \<^verbatim>\<open>getFullAsset\<close>: the variant of largest width. The source sorts
  \<^verbatim>\<open>m.imageUrls\<close> itself (\<^verbatim>\<open>sort\<close> works in place) and returns element 0, so the
  model returns the variant together with the media object as the call leaves it.
  (\<^verbatim>\<open>'...' + m\<close> appends \<^verbatim>\<open>[object Object]\<close>. Element 0 of an empty sorted array
  would be \<^verbatim>\<open>undefined\<close>, and the caller's property read on it a \<^verbatim>\<open>TypeError\<close>.)
\<close>

definition getFullAsset :: "Media3pMedia \<Rightarrow> error + (ImageUrl \<times> Media3pMedia)" where
  "getFullAsset m =
     (if toLowerCase (Media3pMedia.type m) = ''image'' then
        (case imageUrls m of
           Defined us \<Rightarrow>
             if length us = 0 then
               Inl (Error ''No imageUrls for media resource: [object Object]'')
             else
               (case array_sort (\<lambda>el1 el2. ImageUrl.width el2 - ImageUrl.width el1) us of
                  [] \<Rightarrow> Inl TypeError
                | el # els \<Rightarrow> Inr (el, m\<lparr>imageUrls := Defined (el # els)\<rparr>))
         | _ \<Rightarrow> Inl TypeError)
      else Inl (Error ''Invalid media type for media resource: [object Object]''))"

text \<open>
  \<^verbatim>\<open>m.author && {author: {displayName, url}}\<close>: a falsy author is the value of the
  expression itself. The object literal writes the property \<^verbatim>\<open>attribution\<close> with this
  value in every case.
\<close>

fun attribution_of :: "Author maybe \<Rightarrow> Attribution maybe" where
  "attribution_of (Defined a) =
     Defined \<lparr>Attribution.author = \<lparr>displayName = displayName a, Author.url = Author.url a\<rparr>\<rparr>"
| "attribution_of Null = Null"
| "attribution_of Undefined = Undefined"

text \<open>
  \<^verbatim>\<open>getResourceFromMedia3p\<close>. \<^verbatim>\<open>createResource\<close> is imported from a module that is
  not part of the sources at hand, so it is a parameter: the result is whatever it makes
  of the object literal. The second component is the media object after the call.
\<close>

definition getResourceFromMedia3p ::
  "(Resource \<Rightarrow> 'r) \<Rightarrow> Media3pMedia \<Rightarrow> error + ('r \<times> Media3pMedia)" where
  "getResourceFromMedia3p createResource m =
     (case getUrls m of
        Inl e \<Rightarrow> Inl e
      | Inr urls \<Rightarrow>
          (case getFullAsset m of
             Inl e \<Rightarrow> Inl e
           | Inr (fullAsset, m') \<Rightarrow>
               Inr (createResource
                      \<lparr>Resource.type = toLowerCase (Media3pMedia.type m'),
                       Resource.mimeType = ImageUrl.mimeType fullAsset,
                       creationDate = createTime m',
                       src = ImageUrl.url fullAsset,
                       Resource.width = ImageUrl.width fullAsset,
                       Resource.height = ImageUrl.height fullAsset,
                       poster = Null,
                       posterId = Null,
                       id' = name m',
                       length' = Null,
                       lengthFormatted = Null,
                       Resource.title = description m',
                       alt = Null,
                       local = False,
                       sizes = urls,
                       attribution = Some (attribution_of (Media3pMedia.author m'))\<rparr>,
                    m')))"

text \<open>
  Modelled from the spec: \<^verbatim>\<open>createResource\<close> (module \<^verbatim>\<open>./createResource\<close>) is
  missing from the sources. The spec's Media Resource is the adapter's output and carries
  the fields the adapter fills, so this instance hands the object literal on as it is. It
  is used only to run the adapter on concrete inputs.
\<close>

definition createResource :: "Resource \<Rightarrow> Resource" where
  "createResource r = r"

subsection \<open>Example inputs\<close>

definition variant :: "string \<Rightarrow> int \<Rightarrow> int \<Rightarrow> ImageUrl" where
  "variant n w h =
     \<lparr>ImageUrl.url = ''https://images.example/'' @ n, imageName = Defined n,
      ImageUrl.mimeType = ''image/jpeg'', ImageUrl.width = w, ImageUrl.height = h\<rparr>"

definition photo :: "Author maybe \<Rightarrow> ImageUrl list maybe \<Rightarrow> Media3pMedia" where
  "photo a us =
     \<lparr>name = ''media/unsplash:1'', provider = ''UNSPLASH'', Media3pMedia.type = ''IMAGE'',
      Media3pMedia.author = a, Media3pMedia.title = Null, description = Defined ''A photo'',
      createTime = ''2020-06-01T00:00:00Z'', updateTime = ''2020-06-02T00:00:00Z'',
      registerUsageUrl = ''https://media.example/register'', imageUrls = us\<rparr>"

definition three_sizes :: "ImageUrl list" where
  "three_sizes =
     [variant ''small'' 100 75, variant ''large'' 300 225, variant ''medium'' 200 150]"

definition same_name :: "ImageUrl list" where
  "same_name = [variant ''a'' 100 75, variant ''a'' 300 225]"



section \<open>The My Stories list controller\<close>

subsection \<open>Data\<close>

datatype VIEW_STYLE = GRID | LIST

text \<open>The argument object of a \<^verbatim>\<open>fetchStories\<close> call.\<close>

record fetch_request =
  sortOption :: string
  searchTerm :: string
  sortDirection :: "string or_false"
  status :: string
  page :: int

text \<open>
  What the component \<^verbatim>\<open>MyStories\<close> reads in a render: its seven \<^verbatim>\<open>useState\<close>
  values, then the part of the \<^verbatim>\<open>ApiContext\<close> state that its effects and handlers
  use (\<open>isLoading\<close>, \<open>storiesOrderById\<close>, \<open>totalPages\<close>), then the calls of
  \<^verbatim>\<open>fetchStories\<close> made so far. Statuses, sort options and sort directions are the
  strings of the constants module; story identifiers are numbers.
\<close>

record MyStories =
  status :: string
  typeaheadValue :: string
  viewStyle :: VIEW_STYLE
  currentPageToFetch :: int
  allPagesLoaded :: bool
  currentStorySort :: string
  currentListSortDirection :: string
  isLoading :: bool
  storiesOrderById :: "nat list"
  totalPages :: "int maybe"
  fetchStoriesCalls :: "fetch_request list"

subsection \<open>The collaborators of the API context\<close>

text \<open>
  Modelled from the spec: \<^verbatim>\<open>fetchStories\<close> is an action of \<^verbatim>\<open>ApiContext\<close>, whose
  provider is missing from the sources. The spec gives it as
  \<^verbatim>\<open>fetchStories({sortOption, searchTerm, sortDirection, status, page}) -> void\<close>, filling
  the store asynchronously: the call itself only issues the request, which is recorded.
\<close>

definition fetchStories :: "fetch_request \<Rightarrow> MyStories \<Rightarrow> MyStories" where
  "fetchStories request s = s\<lparr>fetchStoriesCalls := fetchStoriesCalls s @ [request]\<rparr>"

text \<open>
  Modelled from the spec: \<^verbatim>\<open>clearExistingStoriesOrder\<close> is the other action of the
  missing provider; the spec gives it as
  \<^verbatim>\<open>clearExistingStoriesOrder() -> void\<close>, which resets \<^verbatim>\<open>storiesOrderById\<close>.
\<close>

definition clearExistingStoriesOrder :: "MyStories \<Rightarrow> MyStories" where
  "clearExistingStoriesOrder s = s\<lparr>storiesOrderById := []\<rparr>"

subsection \<open>State setters and handlers\<close>

definition setStatus :: "string \<Rightarrow> MyStories \<Rightarrow> MyStories" where
  "setStatus v s = s\<lparr>MyStories.status := v\<rparr>"

definition setTypeaheadValue :: "string \<Rightarrow> MyStories \<Rightarrow> MyStories" where
  "setTypeaheadValue v s = s\<lparr>typeaheadValue := v\<rparr>"

definition setViewStyle :: "VIEW_STYLE \<Rightarrow> MyStories \<Rightarrow> MyStories" where
  "setViewStyle v s = s\<lparr>viewStyle := v\<rparr>"

definition setCurrentPageToFetch :: "int \<Rightarrow> MyStories \<Rightarrow> MyStories" where
  "setCurrentPageToFetch v s = s\<lparr>currentPageToFetch := v\<rparr>"

definition setAllPagesLoaded :: "bool \<Rightarrow> MyStories \<Rightarrow> MyStories" where
  "setAllPagesLoaded v s = s\<lparr>allPagesLoaded := v\<rparr>"

definition setCurrentStorySort :: "string \<Rightarrow> MyStories \<Rightarrow> MyStories" where
  "setCurrentStorySort v s = s\<lparr>currentStorySort := v\<rparr>"

definition setListSortDirection :: "string \<Rightarrow> MyStories \<Rightarrow> MyStories" where
  "setListSortDirection v s = s\<lparr>currentListSortDirection := v\<rparr>"

definition handleViewStyleBarButtonSelected :: "MyStories \<Rightarrow> MyStories" where
  "handleViewStyleBarButtonSelected s =
     (if viewStyle s = LIST then setViewStyle GRID s else setViewStyle LIST s)"

text \<open>
  \<^verbatim>\<open>handleGetData\<close> of the infinite scroller, in the render of state \<open>s\<close>: the
  closure reads \<^verbatim>\<open>isLoading\<close> and \<^verbatim>\<open>currentPageToFetch\<close> of that render.
\<close>

definition handleGetData :: "MyStories \<Rightarrow> MyStories" where
  "handleGetData s =
     (if \<not> isLoading s then setCurrentPageToFetch (currentPageToFetch s + 1) s else s)"

text \<open>\<^verbatim>\<open>handleSortChange\<close> of the view controls (\<^verbatim>\<open>BodyViewOptions\<close>).\<close>

definition handleSortChange :: "string \<Rightarrow> MyStories \<Rightarrow> MyStories" where
  "handleSortChange sort' s =
     setCurrentStorySort sort' (setCurrentPageToFetch 1 (clearExistingStoriesOrder s))"

subsection \<open>Effects\<close>

text \<open>
  An effect is a closure of the render it belongs to: it reads the values of the rendered
  state \<open>r\<close>; its setter and action calls change the state \<open>s\<close> that the effects before
  it have left. Each effect comes with its dependency list; the function-valued
  dependencies (\<^verbatim>\<open>fetchStories\<close>, \<^verbatim>\<open>clearExistingStoriesOrder\<close>,
  \<^verbatim>\<open>debounceTypeaheadValue\<close>) keep their identity between renders and are left out.
\<close>

definition fetchStoriesEffect :: "MyStories \<Rightarrow> MyStories \<Rightarrow> MyStories" where
  "fetchStoriesEffect r s =
     fetchStories
       \<lparr>sortOption = currentStorySort r,
        searchTerm = typeaheadValue r,
        sortDirection =
          (if viewStyle r = LIST then Val (currentListSortDirection r) else JsFalse),
        fetch_request.status = MyStories.status r,
        page = currentPageToFetch r\<rparr> s"

definition fetchStoriesDeps ::
  "MyStories \<Rightarrow> VIEW_STYLE \<times> string \<times> int \<times> string \<times> string \<times> string" where
  "fetchStoriesDeps r =
     (viewStyle r, currentListSortDirection r, currentPageToFetch r, currentStorySort r,
      MyStories.status r, typeaheadValue r)"

definition allPagesLoadedEffect :: "MyStories \<Rightarrow> MyStories \<Rightarrow> MyStories" where
  "allPagesLoadedEffect r s = setAllPagesLoaded (js_ge (currentPageToFetch r) (totalPages r)) s"

definition allPagesLoadedDeps :: "MyStories \<Rightarrow> int \<times> int maybe" where
  "allPagesLoadedDeps r = (currentPageToFetch r, totalPages r)"

definition searchEffect :: "MyStories \<Rightarrow> MyStories \<Rightarrow> MyStories" where
  "searchEffect r s =
     (if length (typeaheadValue r) > 0
      then setCurrentPageToFetch 1 (clearExistingStoriesOrder s)
      else s)"

definition searchDeps :: "MyStories \<Rightarrow> string" where
  "searchDeps r = typeaheadValue r"

text \<open>
  \<^verbatim>\<open>useEffect(effect, deps)\<close>: the effect runs after the first render (no previous
  render) and after every render in which a dependency differs from the previous render.
\<close>

definition useEffect ::
  "(MyStories \<Rightarrow> MyStories \<Rightarrow> MyStories) \<Rightarrow> (MyStories \<Rightarrow> 'd) \<Rightarrow>
   MyStories option \<Rightarrow> MyStories \<Rightarrow> MyStories \<Rightarrow> MyStories" where
  "useEffect effect deps prev r s =
     (case prev of
        None \<Rightarrow> effect r s
      | Some p \<Rightarrow> if deps p \<noteq> deps r then effect r s else s)"

text \<open>The three effects of one render, in the order of the source.\<close>

definition runEffects :: "MyStories option \<Rightarrow> MyStories \<Rightarrow> MyStories" where
  "runEffects prev r =
     useEffect searchEffect searchDeps prev r
       (useEffect allPagesLoadedEffect allPagesLoadedDeps prev r
         (useEffect fetchStoriesEffect fetchStoriesDeps prev r r))"

text \<open>
  Rendering until nothing changes: when the effects of a render have changed the state,
  the component renders again, the render before being the one just done.
\<close>

function settle :: "MyStories option \<Rightarrow> MyStories \<Rightarrow> MyStories" where
  "settle prev r = (let s = runEffects prev r in if s = r then s else settle (Some r) s)"
  by pat_completeness auto

text \<open>The number of renders that still change something (it bounds the loop).\<close>

definition passes_left :: "MyStories option \<Rightarrow> MyStories \<Rightarrow> nat" where
  "passes_left prev r =
     (let s = runEffects prev r in
      if s = r then 0 else if runEffects (Some r) s = s then 1 else 2)"

subsection \<open>Events\<close>

text \<open>
  What can happen to a mounted component: the debounced callback fires with the search
  text, the infinite scroller asks for data, the user picks a sort option in the view
  controls, a sort option or a sort direction in the list view's header, a status tab, or
  toggles the view style; or the provider's state changes.
\<close>

datatype event =
    DebouncedTypeahead string
  | HandleGetData
  | HandleSortChange string
  | ListSortChange string
  | ListSortDirectionChange string
  | StatusSelected string
  | ViewStyleBarButtonSelected
  | ApiStateChange bool "nat list" "int maybe"

fun handle :: "event \<Rightarrow> MyStories \<Rightarrow> MyStories" where
  "handle (DebouncedTypeahead newTypeaheadValue) s = setTypeaheadValue newTypeaheadValue s"
| "handle HandleGetData s = handleGetData s"
| "handle (HandleSortChange sort') s = handleSortChange sort' s"
| "handle (ListSortChange sort') s = setCurrentStorySort sort' s"
| "handle (ListSortDirectionChange direction) s = setListSortDirection direction s"
| "handle (StatusSelected v) s = setStatus v s"
| "handle ViewStyleBarButtonSelected s = handleViewStyleBarButtonSelected s"
| "handle (ApiStateChange loading order pages) s =
     s\<lparr>isLoading := loading, storiesOrderById := order, totalPages := pages\<rparr>"

definition dispatch :: "event \<Rightarrow> MyStories \<Rightarrow> MyStories" where
  "dispatch e s = settle (Some s) (handle e s)"

text \<open>
  The initial \<^verbatim>\<open>useState\<close> values, over any state of the provider. The constants
  \<^verbatim>\<open>STORY_STATUSES[0].value\<close>, \<^verbatim>\<open>STORY_SORT_OPTIONS.LAST_MODIFIED\<close> and
  \<^verbatim>\<open>SORT_DIRECTION.ASC\<close> are parameters.
\<close>

definition initialState ::
  "string \<Rightarrow> string \<Rightarrow> string \<Rightarrow> bool \<Rightarrow> nat list \<Rightarrow> int maybe \<Rightarrow> MyStories" where
  "initialState status0 LAST_MODIFIED ASC loading order pages =
     \<lparr>MyStories.status = status0, typeaheadValue = [], viewStyle = GRID,
      currentPageToFetch = 1, allPagesLoaded = False, currentStorySort = LAST_MODIFIED,
      currentListSortDirection = ASC, isLoading = loading, storiesOrderById = order,
      totalPages = pages, fetchStoriesCalls = []\<rparr>"

definition mount :: "MyStories \<Rightarrow> MyStories" where
  "mount s = settle None s"

definition run :: "event list \<Rightarrow> MyStories \<Rightarrow> MyStories" where
  "run es s = foldl (\<lambda>s e. dispatch e s) s es"

text \<open>
  In a settled state the flag agrees with the page and the page count, and the page is
  a page number.
\<close>

definition flag_in_step :: "MyStories \<Rightarrow> bool" where
  "flag_in_step s \<longleftrightarrow>
     allPagesLoaded s = js_ge (currentPageToFetch s) (totalPages s) \<and> 1 \<le> currentPageToFetch s"

text \<open>An example: page 3 of the grid view, three stories listed, no fetch in flight.\<close>

definition third_page :: MyStories where
  "third_page =
     \<lparr>MyStories.status = ''publish'', typeaheadValue = [], viewStyle = GRID,
      currentPageToFetch = 3, allPagesLoaded = False, currentStorySort = ''modified'',
      currentListSortDirection = ''asc'', isLoading = False, storiesOrderById = [4, 2, 7],
      totalPages = Defined 5, fetchStoriesCalls = []\<rparr>"


section \<open>The category picker\<close>

record Category =
  id' :: string
  displayName :: string

text \<open>The calls a pill's \<^verbatim>\<open>onClick\<close> makes, in order.\<close>

datatype call = deselectCategory | setIsExpanded bool | selectCategory string

text \<open>The props of a rendered \<^verbatim>\<open>CategoryPill\<close>.\<close>

record CategoryPill =
  index :: nat
  isSelected :: bool
  isExpanded :: bool
  key :: string
  title :: string
  onClick :: "call list"

text \<open>
  The callback of \<^verbatim>\<open>renderCategories\<close>: reading \<^verbatim>\<open>e.id\<close> of a missing element
  raises.
\<close>

fun renderCategory ::
  "string maybe \<Rightarrow> bool \<Rightarrow> Category maybe \<Rightarrow> nat \<Rightarrow> error + CategoryPill" where
  "renderCategory selectedCategoryId expanded (Defined e) i =
     (let selected = (Defined (Category.id' e) = selectedCategoryId) in
      Inr \<lparr>index = i, isSelected = selected, isExpanded = expanded,
           key = Category.id' e, CategoryPill.title = Category.displayName e,
           onClick = (if selected then [deselectCategory]
                      else [setIsExpanded False, selectCategory (Category.id' e)])\<rparr>)"
| "renderCategory selectedCategoryId expanded Null i = Inl TypeError"
| "renderCategory selectedCategoryId expanded Undefined i = Inl TypeError"

definition renderCategories ::
  "Category list \<Rightarrow> string maybe \<Rightarrow> bool \<Rightarrow> error + CategoryPill list" where
  "renderCategories categories selectedCategoryId expanded =
     array_map (renderCategory selectedCategoryId expanded) 0
       (if truthy selectedCategoryId
        then [array_find (\<lambda>e. Defined (Category.id' e) = selectedCategoryId) categories]
        else map Defined categories)"

definition two_categories :: "Category list" where
  "two_categories =
     [\<lparr>id' = ''categories/unsplash:nature'', displayName = ''Nature''\<rparr>,
      \<lparr>id' = ''categories/unsplash:animals'', displayName = ''Animals''\<rparr>]"


section \<open>Properties of the media resource adapter\<close>

subsection \<open>Lower case\<close>

lemma toLowerCase_image: "toLowerCase ''image'' = ''image''"
  by code_simp

lemma toLowerCase_IMAGE: "toLowerCase ''IMAGE'' = ''image''"
  by code_simp

lemma toLowerCase_VIDEO: "toLowerCase ''VIDEO'' \<noteq> ''image''"
  by code_simp

subsection \<open>Sorting by a comparator that subtracts keys\<close>

lemma set_insert_sorted: "set (insert_sorted compareFn x ys) = insert x (set ys)"
  by (induction ys) auto

lemma set_array_sort: "set (array_sort compareFn xs) = set xs"
  by (induction xs) (auto simp: array_sort_def set_insert_sorted)

lemma length_insert_sorted: "length (insert_sorted compareFn x ys) = Suc (length ys)"
  by (induction ys) auto

lemma length_array_sort: "length (array_sort compareFn xs) = length xs"
  by (induction xs) (auto simp: array_sort_def length_insert_sorted)

lemma descending_insert_sorted:
  "sorted_wrt (\<lambda>a b. wt b \<le> wt a) ys \<Longrightarrow>
   sorted_wrt (\<lambda>a b. wt b \<le> wt a) (insert_sorted (\<lambda>el1 el2. wt el2 - wt el1) x ys)"
  by (induction ys) (auto simp: set_insert_sorted)

lemma descending_array_sort:
  "sorted_wrt (\<lambda>a b. (wt b :: int) \<le> wt a) (array_sort (\<lambda>el1 el2. wt el2 - wt el1) xs)"
  by (induction xs) (auto simp: array_sort_def descending_insert_sorted)

lemma array_sort_head_greatest:
  assumes "array_sort (\<lambda>el1 el2. wt el2 - wt el1) xs = v # rest"
  shows "v \<in> set xs \<and> (\<forall>u \<in> set xs. (wt u :: int) \<le> wt v)"
proof -
  have s: "set xs = insert v (set rest)"
    using set_array_sort [of "\<lambda>el1 el2. wt el2 - wt el1" xs] assms by simp
  have "sorted_wrt (\<lambda>a b. wt b \<le> wt a) (v # rest)"
    using descending_array_sort [of wt xs] assms by simp
  then have "\<forall>u \<in> set rest. wt u \<le> wt v" by simp
  with s show ?thesis by auto
qed

text \<open>Of several widest elements the sort puts the first of the input in front.\<close>

lemma array_sort_head_first:
  "array_sort (\<lambda>el1 el2. wt el2 - wt el1) xs = v # rest \<Longrightarrow>
   \<exists>ys zs. xs = ys @ v # zs \<and> (\<forall>u \<in> set ys. (wt u :: int) < wt v)"
proof (induction xs arbitrary: v rest)
  case Nil
  then show ?case by (simp add: array_sort_def)
next
  case (Cons x xs)
  show ?case
  proof (cases "array_sort (\<lambda>el1 el2. wt el2 - wt el1) xs")
    case Nil
    then have "xs = []"
      using length_array_sort [of "\<lambda>el1 el2. wt el2 - wt el1" xs] by simp
    then have "x # xs = [] @ v # [] \<and> (\<forall>u \<in> set []. wt u < wt v)"
      using Cons.prems by (simp add: array_sort_def)
    then show ?thesis by blast
  next
    case (Cons h t)
    obtain ys zs where split: "xs = ys @ h # zs" "\<forall>u \<in> set ys. wt u < wt h"
      using Cons.IH [OF Cons] by blast
    have sorted: "array_sort (\<lambda>el1 el2. wt el2 - wt el1) (x # xs) =
        insert_sorted (\<lambda>el1 el2. wt el2 - wt el1) x (h # t)"
      using Cons by (simp add: array_sort_def)
    show ?thesis
    proof (cases "wt h \<le> wt x")
      case True
      then have "v = x" using Cons.prems sorted by simp
      then have "x # xs = [] @ v # xs \<and> (\<forall>u \<in> set []. wt u < wt v)" by simp
      then show ?thesis by blast
    next
      case False
      then have "v = h" using Cons.prems sorted by simp
      then have "x # xs = (x # ys) @ v # zs \<and> (\<forall>u \<in> set (x # ys). wt u < wt v)"
        using split False by simp
      then show ?thesis by blast
    qed
  qed
qed

lemma array_sort_nonempty: "xs \<noteq> [] \<Longrightarrow> \<exists>v rest. array_sort compareFn xs = v # rest"
  using length_array_sort [of compareFn xs] by (cases "array_sort compareFn xs") auto

subsection \<open>The two helpers\<close>

lemma getUrls_image:
  assumes "toLowerCase (Media3pMedia.type m) = ''image''" and "imageUrls m = Defined us"
  shows "\<exists>urls. getUrls m = Inr urls"
  using assms by (simp add: getUrls_def)

lemma getFullAsset_image:
  assumes "toLowerCase (Media3pMedia.type m) = ''image''"
    and "imageUrls m = Defined us" and "us \<noteq> []"
  shows "\<exists>v rest.
           array_sort (\<lambda>el1 el2. ImageUrl.width el2 - ImageUrl.width el1) us = v # rest
         \<and> getFullAsset m = Inr (v, m\<lparr>imageUrls := Defined (v # rest)\<rparr>)"
proof -
  obtain v rest
    where "array_sort (\<lambda>el1 el2. ImageUrl.width el2 - ImageUrl.width el1) us = v # rest"
    using array_sort_nonempty [OF assms(3)] by blast
  then show ?thesis using assms by (simp add: getFullAsset_def)
qed

text \<open>
  A successful \<^verbatim>\<open>getFullAsset\<close> leaves the media object as it was but for the order of
  \<open>imageUrls\<close>, which is now descending in width.
\<close>

lemma getFullAsset_frame:
  "getFullAsset m = Inr (v, m') \<Longrightarrow>
   \<exists>us. imageUrls m = Defined us \<and>
     m' = m\<lparr>imageUrls :=
              Defined (array_sort (\<lambda>el1 el2. ImageUrl.width el2 - ImageUrl.width el1) us)\<rparr>"
  by (auto simp: getFullAsset_def split: if_splits maybe.splits list.splits)

subsection \<open>Errors\<close>

lemma getResourceFromMedia3p_invalid_type:
  "toLowerCase (Media3pMedia.type m) \<noteq> ''image'' \<Longrightarrow>
   getResourceFromMedia3p cr m = Inl (Error ''Invalid media type.'')"
  by (simp add: getResourceFromMedia3p_def getUrls_def)

lemma getResourceFromMedia3p_missing_list:
  "toLowerCase (Media3pMedia.type m) = ''image'' \<Longrightarrow>
   imageUrls m = Undefined \<or> imageUrls m = Null \<Longrightarrow>
   getResourceFromMedia3p cr m = Inl TypeError"
  by (auto simp: getResourceFromMedia3p_def getUrls_def)

lemma getResourceFromMedia3p_empty_list:
  "toLowerCase (Media3pMedia.type m) = ''image'' \<Longrightarrow> imageUrls m = Defined [] \<Longrightarrow>
   getResourceFromMedia3p cr m =
     Inl (Error ''No imageUrls for media resource: [object Object]'')"
  by (simp add: getResourceFromMedia3p_def getUrls_def getFullAsset_def)

lemma getResourceFromMedia3p_image:
  assumes "toLowerCase (Media3pMedia.type m) = ''image''"
    and "imageUrls m = Defined us" and "us \<noteq> []"
  shows "\<exists>r m'. getResourceFromMedia3p cr m = Inr (r, m')"
proof -
  obtain urls where u: "getUrls m = Inr urls"
    using getUrls_image [OF assms(1,2)] by blast
  obtain v rest where f: "getFullAsset m = Inr (v, m\<lparr>imageUrls := Defined (v # rest)\<rparr>)"
    using getFullAsset_image [OF assms] by blast
  show ?thesis unfolding getResourceFromMedia3p_def u f by simp
qed

subsection \<open>The example inputs\<close>

lemma photo_type: "toLowerCase (Media3pMedia.type (photo a us)) = ''image''"
  by (simp add: photo_def toLowerCase_IMAGE)

lemma photo_imageUrls: "imageUrls (photo a us) = us"
  by (simp add: photo_def)


lemma photo_update: "(photo a us)\<lparr>imageUrls := vs\<rparr> = photo a vs"
  by (simp add: photo_def)

lemma three_sizes_nonempty: "three_sizes \<noteq> []"
  by (simp add: three_sizes_def)

lemma sorted_three_sizes:
  "array_sort (\<lambda>el1 el2. ImageUrl.width el2 - ImageUrl.width el1) three_sizes =
     [variant ''large'' 300 225, variant ''medium'' 200 150, variant ''small'' 100 75]"
  by (simp add: array_sort_def three_sizes_def variant_def)

lemma getFullAsset_three_sizes:
  "getFullAsset (photo a (Defined three_sizes)) =
     Inr (variant ''large'' 300 225,
          photo a (Defined [variant ''large'' 300 225, variant ''medium'' 200 150,
                            variant ''small'' 100 75]))"
  using three_sizes_nonempty
  by (simp add: getFullAsset_def photo_type photo_imageUrls sorted_three_sizes photo_update)

lemma getUrls_photo: "\<exists>urls. getUrls (photo a (Defined us)) = Inr urls"
  by (simp add: getUrls_def photo_type photo_imageUrls)

text \<open>
  The spec's example: of the widths 100, 300 and 200 the adapter takes the variant of
  width 300.
\<close>

lemma three_sizes_full_asset:
  "\<exists>r m'. getResourceFromMedia3p createResource (photo Null (Defined three_sizes)) = Inr (r, m')
     \<and> Resource.width r = 300 \<and> src r = ''https://images.example/large''"
proof -
  obtain urls where u: "getUrls (photo Null (Defined three_sizes)) = Inr urls"
    using getUrls_photo by blast
  show ?thesis
    unfolding getResourceFromMedia3p_def u getFullAsset_three_sizes
    by (simp add: createResource_def variant_def)
qed

subsection \<open>The claims\<close>

text \<open>
  C1. For a media object of type image (in any letter case) with a non-empty
  \<open>imageUrls\<close> list, the adapter returns what \<^verbatim>\<open>createResource\<close> makes of an object
  whose \<open>src\<close>, \<open>width\<close>, \<open>height\<close> and \<open>mimeType\<close> are those of one variant \<open>v\<close> of
  the list, and no variant of the list is wider than \<open>v\<close>.
\<close>

theorem full_asset_has_greatest_width:
  assumes "toLowerCase (Media3pMedia.type m) = ''image''"
    and "imageUrls m = Defined us" and "us \<noteq> []"
  shows "\<exists>v a m'. getResourceFromMedia3p cr m = Inr (cr a, m')
           \<and> v \<in> set us \<and> (\<forall>u \<in> set us. ImageUrl.width u \<le> ImageUrl.width v)
           \<and> src a = ImageUrl.url v \<and> Resource.width a = ImageUrl.width v
           \<and> Resource.height a = ImageUrl.height v
           \<and> Resource.mimeType a = ImageUrl.mimeType v"
proof -
  obtain urls where u: "getUrls m = Inr urls"
    using getUrls_image [OF assms(1,2)] by blast
  obtain v rest where
    s: "array_sort (\<lambda>el1 el2. ImageUrl.width el2 - ImageUrl.width el1) us = v # rest"
    and f: "getFullAsset m = Inr (v, m\<lparr>imageUrls := Defined (v # rest)\<rparr>)"
    using getFullAsset_image [OF assms] by blast
  have g: "v \<in> set us \<and> (\<forall>u \<in> set us. ImageUrl.width u \<le> ImageUrl.width v)"
    using array_sort_head_greatest [OF s] .
  show ?thesis
    unfolding getResourceFromMedia3p_def u f using g
    by (intro exI[of _ v]) (simp, blast intro: Resource.select_convs)
qed

theorem full_asset_has_greatest_width_witness:
  "toLowerCase (Media3pMedia.type (photo Null (Defined three_sizes))) = ''image''
   \<and> imageUrls (photo Null (Defined three_sizes)) = Defined three_sizes
   \<and> three_sizes \<noteq> []
   \<and> (\<exists>v a m'.
         getResourceFromMedia3p createResource (photo Null (Defined three_sizes)) =
           Inr (createResource a, m')
       \<and> v \<in> set three_sizes
       \<and> (\<forall>u \<in> set three_sizes. ImageUrl.width u \<le> ImageUrl.width v)
       \<and> src a = ImageUrl.url v \<and> Resource.width a = ImageUrl.width v
       \<and> Resource.height a = ImageUrl.height v
       \<and> Resource.mimeType a = ImageUrl.mimeType v)"
proof -
  have h1: "toLowerCase (Media3pMedia.type (photo Null (Defined three_sizes))) = ''image''"
    by (rule photo_type)
  have h2: "imageUrls (photo Null (Defined three_sizes)) = Defined three_sizes"
    by (rule photo_imageUrls)
  show ?thesis
    using full_asset_has_greatest_width [OF h1 h2 three_sizes_nonempty, of createResource]
      h1 h2 three_sizes_nonempty
    by blast
qed

text \<open>
  C3. The adapter is not free of side effects: on the media object with the variants of
  widths 100, 300 and 200, in this order, it succeeds and leaves \<open>imageUrls\<close> in the order
  300, 200, 100, which is not the order it was given.
\<close>

theorem getResourceFromMedia3p_reorders_imageUrls:
  "\<exists>r m'. getResourceFromMedia3p createResource (photo Null (Defined three_sizes)) = Inr (r, m')
     \<and> imageUrls m' =
         Defined [variant ''large'' 300 225, variant ''medium'' 200 150,
                  variant ''small'' 100 75]
     \<and> imageUrls m' \<noteq> imageUrls (photo Null (Defined three_sizes))"
proof -
  obtain urls where u: "getUrls (photo Null (Defined three_sizes)) = Inr urls"
    using getUrls_photo by blast
  have d: "three_sizes \<noteq>
      [variant ''large'' 300 225, variant ''medium'' 200 150, variant ''small'' 100 75]"
    by (simp add: three_sizes_def variant_def)
  show ?thesis
    unfolding getResourceFromMedia3p_def u getFullAsset_three_sizes
    using d by (simp add: photo_imageUrls)
qed

text \<open>
  All the adapter changes in the media object is the order of \<open>imageUrls\<close>.
\<close>

lemma getResourceFromMedia3p_frame:
  assumes "getResourceFromMedia3p cr m = Inr (r, m')"
  shows "\<exists>us. imageUrls m = Defined us \<and>
     m' = m\<lparr>imageUrls :=
              Defined (array_sort (\<lambda>el1 el2. ImageUrl.width el2 - ImageUrl.width el1) us)\<rparr>"
proof -
  obtain v where "getFullAsset m = Inr (v, m')"
    using assms by (auto simp: getResourceFromMedia3p_def split: sum.splits prod.splits)
  then show ?thesis by (rule getFullAsset_frame)
qed

text \<open>
  The reordering shows in the result of a second call on the same object: with two
  variants of one name, the first call keeps the later, wider one under that name in
  \<open>sizes\<close>, and the second call the narrower one.
\<close>

lemma getFullAsset_same_name:
  "getFullAsset (photo a (Defined same_name)) =
     Inr (variant ''a'' 300 225, photo a (Defined [variant ''a'' 300 225, variant ''a'' 100 75]))"
  by (simp add: getFullAsset_def photo_type photo_imageUrls photo_update same_name_def
      array_sort_def variant_def)

lemma getFullAsset_same_name_again:
  "getFullAsset (photo a (Defined [variant ''a'' 300 225, variant ''a'' 100 75])) =
     Inr (variant ''a'' 300 225, photo a (Defined [variant ''a'' 300 225, variant ''a'' 100 75]))"
  by (simp add: getFullAsset_def photo_type photo_imageUrls photo_update
      array_sort_def variant_def)

lemma getUrls_same_name:
  "\<exists>urls. getUrls (photo a (Defined same_name)) = Inr urls
     \<and> map_option Size.width (urls ''a'') = Some 300"
  by (simp add: getUrls_def photo_type photo_imageUrls same_name_def new_Map_def
      fromEntries_def variant_def)

lemma getUrls_same_name_again:
  "\<exists>urls. getUrls (photo a (Defined [variant ''a'' 300 225, variant ''a'' 100 75])) = Inr urls
     \<and> map_option Size.width (urls ''a'') = Some 100"
  by (simp add: getUrls_def photo_type photo_imageUrls new_Map_def fromEntries_def variant_def)

lemma second_call_differs:
  "\<exists>r1 m1 r2 m2.
      getResourceFromMedia3p createResource (photo Null (Defined same_name)) = Inr (r1, m1)
    \<and> getResourceFromMedia3p createResource m1 = Inr (r2, m2)
    \<and> map_option Size.width (sizes r1 ''a'') = Some 300
    \<and> map_option Size.width (sizes r2 ''a'') = Some 100"
proof -
  obtain u1 where u1: "getUrls (photo Null (Defined same_name)) = Inr u1"
    "map_option Size.width (u1 ''a'') = Some 300"
    using getUrls_same_name by blast
  obtain u2 where u2:
    "getUrls (photo Null (Defined [variant ''a'' 300 225, variant ''a'' 100 75])) = Inr u2"
    "map_option Size.width (u2 ''a'') = Some 100"
    using getUrls_same_name_again by blast
  show ?thesis
    unfolding getResourceFromMedia3p_def u1 getFullAsset_same_name
    using u1(2) u2(2) by (simp add: u2(1) getFullAsset_same_name_again createResource_def)
qed

text \<open>
  C6. The adapter raises exactly when the type is not image (in any letter case) or the
  image has no size variant, its \<open>imageUrls\<close> being missing or empty; so for an image
  with at least one size variant it returns a resource.
\<close>

theorem adapter_fails_iff:
  "isl (getResourceFromMedia3p cr m) \<longleftrightarrow>
     toLowerCase (Media3pMedia.type m) \<noteq> ''image''
     \<or> imageUrls m = Undefined \<or> imageUrls m = Null \<or> imageUrls m = Defined []"
proof (cases "toLowerCase (Media3pMedia.type m) = ''image''")
  case False
  then show ?thesis using getResourceFromMedia3p_invalid_type [of m cr] by simp
next
  case image: True
  show ?thesis
  proof (cases "imageUrls m")
    case Undefined
    then show ?thesis using getResourceFromMedia3p_missing_list [OF image, of cr] by simp
  next
    case Null
    then show ?thesis using getResourceFromMedia3p_missing_list [OF image, of cr] by simp
  next
    case (Defined us)
    show ?thesis
    proof (cases "us = []")
      case True
      then show ?thesis
        using getResourceFromMedia3p_empty_list [OF image, of cr] Defined by simp
    next
      case False
      then show ?thesis
        using getResourceFromMedia3p_image [OF image Defined False, of cr] Defined image
        by auto
    qed
  qed
qed

theorem adapter_fails_iff_witness:
  "isl (getResourceFromMedia3p createResource
          ((photo Null (Defined three_sizes))\<lparr>Media3pMedia.type := ''VIDEO''\<rparr>))
   \<and> isl (getResourceFromMedia3p createResource (photo Null (Defined [])))
   \<and> \<not> isl (getResourceFromMedia3p createResource (photo Null (Defined three_sizes)))"
proof -
  have video: "toLowerCase (Media3pMedia.type
      ((photo Null (Defined three_sizes))\<lparr>Media3pMedia.type := ''VIDEO''\<rparr>)) \<noteq> ''image''"
    by (simp add: toLowerCase_VIDEO)
  have a: "isl (getResourceFromMedia3p createResource
          ((photo Null (Defined three_sizes))\<lparr>Media3pMedia.type := ''VIDEO''\<rparr>))"
    using adapter_fails_iff
      [of createResource "(photo Null (Defined three_sizes))\<lparr>Media3pMedia.type := ''VIDEO''\<rparr>"]
      video
    by blast
  have b: "isl (getResourceFromMedia3p createResource (photo Null (Defined [])))"
    using adapter_fails_iff [of createResource "photo Null (Defined [])"]
    by (simp add: photo_imageUrls)
  have c: "\<not> isl (getResourceFromMedia3p createResource (photo Null (Defined three_sizes)))"
    using adapter_fails_iff [of createResource "photo Null (Defined three_sizes)"]
      three_sizes_nonempty
    by (simp add: photo_imageUrls photo_type)
  show ?thesis using a b c by blast
qed






section \<open>Properties of the list controller\<close>

subsection \<open>One render's effects\<close>

lemmas effect_defs = runEffects_def useEffect_def searchEffect_def searchDeps_def
  allPagesLoadedEffect_def allPagesLoadedDeps_def fetchStoriesEffect_def fetchStoriesDeps_def
  fetchStories_def clearExistingStoriesOrder_def setCurrentPageToFetch_def
  setAllPagesLoaded_def

lemmas handler_defs = setStatus_def setTypeaheadValue_def setViewStyle_def
  setCurrentPageToFetch_def setCurrentStorySort_def setListSortDirection_def
  handleViewStyleBarButtonSelected_def handleGetData_def handleSortChange_def
  clearExistingStoriesOrder_def

lemma runEffects_unchanged:
  "typeaheadValue (runEffects prev r) = typeaheadValue r"
  "viewStyle (runEffects prev r) = viewStyle r"
  "MyStories.status (runEffects prev r) = MyStories.status r"
  "currentStorySort (runEffects prev r) = currentStorySort r"
  "currentListSortDirection (runEffects prev r) = currentListSortDirection r"
  "isLoading (runEffects prev r) = isLoading r"
  "totalPages (runEffects prev r) = totalPages r"
  by (simp_all add: effect_defs split: option.splits)

lemma runEffects_Some_page:
  "currentPageToFetch (runEffects (Some p) r) =
     (if typeaheadValue p \<noteq> typeaheadValue r \<and> typeaheadValue r \<noteq> [] then 1
      else currentPageToFetch r)"
  by (simp add: effect_defs)

lemma runEffects_Some_order:
  "storiesOrderById (runEffects (Some p) r) =
     (if typeaheadValue p \<noteq> typeaheadValue r \<and> typeaheadValue r \<noteq> [] then []
      else storiesOrderById r)"
  by (simp add: effect_defs)

lemma runEffects_Some_flag:
  "allPagesLoaded (runEffects (Some p) r) =
     (if allPagesLoadedDeps p \<noteq> allPagesLoadedDeps r
      then js_ge (currentPageToFetch r) (totalPages r) else allPagesLoaded r)"
  by (simp add: effect_defs)

lemma runEffects_Some_calls:
  "fetchStoriesCalls (runEffects (Some p) r) =
     (if fetchStoriesDeps p \<noteq> fetchStoriesDeps r
      then fetchStoriesCalls r @
        [\<lparr>sortOption = currentStorySort r, searchTerm = typeaheadValue r,
          sortDirection =
            (if viewStyle r = LIST then Val (currentListSortDirection r) else JsFalse),
          fetch_request.status = MyStories.status r, page = currentPageToFetch r\<rparr>]
      else fetchStoriesCalls r)"
  by (simp add: effect_defs)

lemma runEffects_same_deps:
  assumes "fetchStoriesDeps p = fetchStoriesDeps r"
    and "allPagesLoadedDeps p = allPagesLoadedDeps r"
    and "searchDeps p = searchDeps r"
  shows "runEffects (Some p) r = r"
  using assms by (simp add: runEffects_def useEffect_def)

lemma runEffects_same: "runEffects (Some r) r = r"
  by (rule runEffects_same_deps) simp_all

subsection \<open>Rendering settles\<close>

text \<open>
  The effects of a second render in a row change no dependency, so a third render runs
  no effect.
\<close>

lemma third_pass:
  "runEffects (Some (runEffects prev r)) (runEffects (Some r) (runEffects prev r)) =
   runEffects (Some r) (runEffects prev r)"
proof (rule runEffects_same_deps)
  let ?s = "runEffects prev r"
  have p: "currentPageToFetch (runEffects (Some r) ?s) = currentPageToFetch ?s"
    by (simp add: runEffects_Some_page runEffects_unchanged)
  show "fetchStoriesDeps ?s = fetchStoriesDeps (runEffects (Some r) ?s)"
    by (simp add: fetchStoriesDeps_def runEffects_unchanged p)
  show "allPagesLoadedDeps ?s = allPagesLoadedDeps (runEffects (Some r) ?s)"
    by (simp add: allPagesLoadedDeps_def runEffects_unchanged p)
  show "searchDeps ?s = searchDeps (runEffects (Some r) ?s)"
    by (simp add: searchDeps_def runEffects_unchanged)
qed

termination settle
proof (relation "measure (\<lambda>(prev, r). passes_left prev r)")
  show "wf (measure (\<lambda>(prev, r). passes_left prev r))" by simp
next
  fix prev r s
  assume "s = runEffects prev r" and "s \<noteq> r"
  then show "((Some r, s), (prev, r)) \<in> measure (\<lambda>(prev, r). passes_left prev r)"
    using third_pass [of prev r] by (simp add: passes_left_def Let_def)
qed

declare settle.simps [simp del]

lemma settle_eq:
  "settle prev r =
     (let s = runEffects prev r in if s = r then s else runEffects (Some r) s)"
proof -
  let ?s = "runEffects prev r"
  let ?t = "runEffects (Some r) ?s"
  have t: "settle (Some ?s) ?t = ?t"
    using third_pass [of prev r] by (subst settle.simps) (simp add: Let_def)
  have "settle (Some r) ?s = ?t"
    using t by (subst settle.simps) (simp add: Let_def)
  then show ?thesis
    by (subst settle.simps) (simp add: Let_def)
qed

lemma settle_two_passes: "settle prev r = runEffects (Some r) (runEffects prev r)"
  by (simp add: settle_eq Let_def runEffects_same)

lemmas pass_simps = runEffects_unchanged runEffects_Some_page runEffects_Some_flag
  runEffects_Some_order allPagesLoadedDeps_def

subsection \<open>The flag follows the page\<close>

lemma flag_in_step_dispatch: "flag_in_step s \<Longrightarrow> flag_in_step (dispatch e s)"
  by (cases e)
    (auto simp: flag_in_step_def dispatch_def settle_two_passes pass_simps handler_defs)

lemma flag_in_step_mount:
  "flag_in_step (mount (initialState status0 LAST_MODIFIED ASC loading order pages))"
  by (simp add: flag_in_step_def mount_def settle_two_passes pass_simps)
    (simp add: effect_defs initialState_def)

lemma flag_in_step_run: "flag_in_step s \<Longrightarrow> flag_in_step (run es s)"
  unfolding run_def by (induction es arbitrary: s) (simp_all add: flag_in_step_dispatch)

lemma totalPages_dispatch: "totalPages (dispatch e s) = totalPages (handle e s)"
  by (simp add: dispatch_def settle_two_passes runEffects_unchanged)

lemma totalPages_mount: "totalPages (mount s) = totalPages s"
  by (simp add: mount_def settle_two_passes runEffects_unchanged)

text \<open>The effect itself, for any page and page count.\<close>

lemma allPagesLoadedEffect_flag:
  "allPagesLoaded (allPagesLoadedEffect r s) = js_ge (currentPageToFetch r) (totalPages r)"
  by (simp add: allPagesLoadedEffect_def setAllPagesLoaded_def)

subsection \<open>The claims\<close>

text \<open>
  C2. In every state the mounted component settles in, after any events, the flag
  \<open>allPagesLoaded\<close> is the value of \<^verbatim>\<open>currentPageToFetch >= totalPages\<close>: for a number of
  pages it is true if and only if the current page is at least that number, so it is
  true for zero pages; and it is false when the number of pages is \<^verbatim>\<open>undefined\<close>.
\<close>

theorem allPagesLoaded_iff_current_ge_total:
  assumes "s = run es (mount (initialState status0 LAST_MODIFIED ASC loading order pages))"
  shows "(allPagesLoaded s \<longleftrightarrow> js_ge (currentPageToFetch s) (totalPages s))
       \<and> (\<forall>t. totalPages s = Defined t \<longrightarrow> (allPagesLoaded s \<longleftrightarrow> currentPageToFetch s \<ge> t))
       \<and> (totalPages s = Defined 0 \<longrightarrow> allPagesLoaded s)
       \<and> (totalPages s = Undefined \<longrightarrow> \<not> allPagesLoaded s)"
proof -
  have "flag_in_step s"
    unfolding assms by (rule flag_in_step_run) (rule flag_in_step_mount)
  then show ?thesis by (auto simp: flag_in_step_def)
qed

theorem allPagesLoaded_iff_current_ge_total_witness:
  "(let s = run [ApiStateChange False [] (Defined 0)]
              (mount (initialState ''all'' ''modified'' ''asc'' False [] Undefined))
    in totalPages s = Defined 0 \<and> allPagesLoaded s)
   \<and> (let s = run [] (mount (initialState ''all'' ''modified'' ''asc'' True [] Undefined))
      in totalPages s = Undefined \<and> \<not> allPagesLoaded s)"
proof -
  let ?a = "run [ApiStateChange False [] (Defined 0)]
              (mount (initialState ''all'' ''modified'' ''asc'' False [] Undefined))"
  let ?b = "run [] (mount (initialState ''all'' ''modified'' ''asc'' True [] Undefined))"
  have a: "totalPages ?a = Defined 0"
    by (simp add: run_def totalPages_dispatch)
  have b: "totalPages ?b = Undefined"
    by (simp add: run_def totalPages_mount initialState_def)
  have fa: "allPagesLoaded ?a"
    using allPagesLoaded_iff_current_ge_total [of ?a, OF refl] a by blast
  have fb: "\<not> allPagesLoaded ?b"
    using allPagesLoaded_iff_current_ge_total [of ?b, OF refl] b by blast
  show ?thesis
    unfolding Let_def using a b fa fb by blast
qed

text \<open>
  C4. When the debounced callback fires with a search text that is not empty and differs
  from the current one, the component settles with an empty \<open>storiesOrderById\<close> and with
  \<open>currentPageToFetch\<close> equal to 1.
\<close>

theorem search_change_clears_order_and_page:
  assumes "v \<noteq> typeaheadValue s" and "length v > 0"
  shows "storiesOrderById (dispatch (DebouncedTypeahead v) s) = []
       \<and> currentPageToFetch (dispatch (DebouncedTypeahead v) s) = 1"
  using assms
  by (simp add: dispatch_def settle_two_passes pass_simps handler_defs)

theorem search_change_clears_order_and_page_witness:
  "''cats'' \<noteq> typeaheadValue third_page \<and> length ''cats'' > 0
   \<and> storiesOrderById third_page = [4, 2, 7] \<and> currentPageToFetch third_page = 3
   \<and> storiesOrderById (dispatch (DebouncedTypeahead ''cats'') third_page) = []
   \<and> currentPageToFetch (dispatch (DebouncedTypeahead ''cats'') third_page) = 1"
proof -
  have h1: "''cats'' \<noteq> typeaheadValue third_page" by (simp add: third_page_def)
  have h2: "length ''cats'' > 0" by simp
  have before: "storiesOrderById third_page = [4, 2, 7] \<and> currentPageToFetch third_page = 3"
    by (simp add: third_page_def)
  show ?thesis
    using search_change_clears_order_and_page [OF h1 h2] h1 h2 before by blast
qed

text \<open>
  With the empty search text the search effect does nothing: the ordering index and the
  page stay.
\<close>

lemma search_cleared_keeps_order_and_page:
  "storiesOrderById (dispatch (DebouncedTypeahead []) s) = storiesOrderById s
   \<and> currentPageToFetch (dispatch (DebouncedTypeahead []) s) = currentPageToFetch s"
  by (simp add: dispatch_def settle_two_passes pass_simps handler_defs)

text \<open>
  C5. Load-more: when no fetch is in flight, \<^verbatim>\<open>handleGetData\<close> changes nothing but
  \<open>currentPageToFetch\<close>, which grows by exactly 1, and the component settles on that
  page; when a fetch is in flight it changes nothing, and nothing follows.
\<close>

theorem load_more_increments_unless_loading:
  "(\<not> isLoading s \<longrightarrow>
      handleGetData s = s\<lparr>currentPageToFetch := currentPageToFetch s + 1\<rparr>
      \<and> currentPageToFetch (dispatch HandleGetData s) = currentPageToFetch s + 1)
   \<and> (isLoading s \<longrightarrow> handleGetData s = s \<and> dispatch HandleGetData s = s)"
  by (simp add: dispatch_def settle_two_passes pass_simps handler_defs runEffects_same)

theorem load_more_increments_unless_loading_witness:
  "\<not> isLoading third_page
   \<and> currentPageToFetch (dispatch HandleGetData third_page) = 4
   \<and> isLoading (third_page\<lparr>isLoading := True\<rparr>)
   \<and> dispatch HandleGetData (third_page\<lparr>isLoading := True\<rparr>) = third_page\<lparr>isLoading := True\<rparr>"
proof -
  have h1: "\<not> isLoading third_page" by (simp add: third_page_def)
  have p: "currentPageToFetch third_page = 3" by (simp add: third_page_def)
  have h2: "isLoading (third_page\<lparr>isLoading := True\<rparr>)" by simp
  have a: "currentPageToFetch (dispatch HandleGetData third_page) = 4"
    using load_more_increments_unless_loading [of third_page] h1 p by simp
  have b: "dispatch HandleGetData (third_page\<lparr>isLoading := True\<rparr>) =
      third_page\<lparr>isLoading := True\<rparr>"
    using load_more_increments_unless_loading [of "third_page\<lparr>isLoading := True\<rparr>"] h2
    by blast
  show ?thesis using h1 h2 a b by blast
qed

text \<open>
  C8. After a render in which the status, the sort option, the sort direction, the search
  text or the current page differs from the render before, exactly one
  \<^verbatim>\<open>fetchStories\<close> call is made; its request carries the sort option, the search text,
  the status and the page of the render, and as sort direction the render's direction in
  the list view and \<^verbatim>\<open>false\<close>, no direction, in any other view.
\<close>

theorem fetch_request_carries_all_five:
  assumes "MyStories.status p \<noteq> MyStories.status r
         \<or> currentStorySort p \<noteq> currentStorySort r
         \<or> currentListSortDirection p \<noteq> currentListSortDirection r
         \<or> typeaheadValue p \<noteq> typeaheadValue r
         \<or> currentPageToFetch p \<noteq> currentPageToFetch r"
  shows "\<exists>q. fetchStoriesCalls (runEffects (Some p) r) = fetchStoriesCalls r @ [q]
           \<and> sortOption q = currentStorySort r
           \<and> searchTerm q = typeaheadValue r
           \<and> fetch_request.status q = MyStories.status r
           \<and> page q = currentPageToFetch r
           \<and> (viewStyle r = LIST \<longrightarrow> sortDirection q = Val (currentListSortDirection r))
           \<and> (viewStyle r \<noteq> LIST \<longrightarrow> sortDirection q = JsFalse)"
proof -
  have "fetchStoriesDeps p \<noteq> fetchStoriesDeps r"
    using assms by (auto simp: fetchStoriesDeps_def)
  then show ?thesis by (simp add: runEffects_Some_calls)
qed

theorem fetch_request_carries_all_five_witness:
  "(\<exists>q. fetchStoriesCalls (runEffects (Some third_page) (setStatus ''draft'' third_page)) = [q]
      \<and> sortOption q = ''modified'' \<and> searchTerm q = [] \<and> fetch_request.status q = ''draft''
      \<and> page q = 3 \<and> sortDirection q = JsFalse)
   \<and> (\<exists>q. fetchStoriesCalls
             (runEffects (Some (setViewStyle LIST third_page))
                (setListSortDirection ''desc'' (setViewStyle LIST third_page))) = [q]
      \<and> sortOption q = ''modified'' \<and> searchTerm q = [] \<and> fetch_request.status q = ''publish''
      \<and> page q = 3 \<and> sortDirection q = Val ''desc'')"
proof -
  let ?r1 = "setStatus ''draft'' third_page"
  let ?p2 = "setViewStyle LIST third_page"
  let ?r2 = "setListSortDirection ''desc'' ?p2"
  have h1: "MyStories.status third_page \<noteq> MyStories.status ?r1"
    by (simp add: third_page_def setStatus_def)
  have h2: "currentListSortDirection ?p2 \<noteq> currentListSortDirection ?r2"
    by (simp add: third_page_def setListSortDirection_def setViewStyle_def)
  have v1: "viewStyle ?r1 \<noteq> LIST" "fetchStoriesCalls ?r1 = []"
    "currentStorySort ?r1 = ''modified''" "typeaheadValue ?r1 = []"
    "MyStories.status ?r1 = ''draft''" "currentPageToFetch ?r1 = 3"
    by (simp_all add: third_page_def setStatus_def)
  have v2: "viewStyle ?r2 = LIST" "fetchStoriesCalls ?r2 = []"
    "currentStorySort ?r2 = ''modified''" "typeaheadValue ?r2 = []"
    "MyStories.status ?r2 = ''publish''" "currentPageToFetch ?r2 = 3"
    "currentListSortDirection ?r2 = ''desc''"
    by (simp_all add: third_page_def setListSortDirection_def setViewStyle_def)
  have a: "\<exists>q. fetchStoriesCalls (runEffects (Some third_page) ?r1) = [q]
      \<and> sortOption q = ''modified'' \<and> searchTerm q = [] \<and> fetch_request.status q = ''draft''
      \<and> page q = 3 \<and> sortDirection q = JsFalse"
    using fetch_request_carries_all_five [of third_page ?r1] h1 by (simp add: v1)
  have b: "\<exists>q. fetchStoriesCalls (runEffects (Some ?p2) ?r2) = [q]
      \<and> sortOption q = ''modified'' \<and> searchTerm q = [] \<and> fetch_request.status q = ''publish''
      \<and> page q = 3 \<and> sortDirection q = Val ''desc''"
    using fetch_request_carries_all_five [of ?p2 ?r2] h2 by (simp add: v2)
  show ?thesis using a b by blast
qed

text \<open>
  C9. The sort-change handler of the view controls clears the ordering index, then sets
  the current page to 1, then sets the new sort option; the component settles with an
  empty ordering index, the current page 1 and the new sort option.
\<close>

theorem sort_change_clears_order_and_page:
  "handleSortChange sort' s =
     setCurrentStorySort sort' (setCurrentPageToFetch 1 (clearExistingStoriesOrder s))
   \<and> storiesOrderById (handleSortChange sort' s) = []
   \<and> currentPageToFetch (handleSortChange sort' s) = 1
   \<and> currentStorySort (handleSortChange sort' s) = sort'
   \<and> storiesOrderById (dispatch (HandleSortChange sort') s) = []
   \<and> currentPageToFetch (dispatch (HandleSortChange sort') s) = 1
   \<and> currentStorySort (dispatch (HandleSortChange sort') s) = sort'"
  by (simp add: dispatch_def settle_two_passes pass_simps handler_defs)

text \<open>
  The sort-change handler of the list view's header is \<^verbatim>\<open>setCurrentStorySort\<close> itself:
  it keeps the ordering index and the current page.
\<close>

lemma list_sort_change_keeps_order_and_page:
  "storiesOrderById (dispatch (ListSortChange sort') s) = storiesOrderById s
   \<and> currentPageToFetch (dispatch (ListSortChange sort') s) = currentPageToFetch s
   \<and> currentStorySort (dispatch (ListSortChange sort') s) = sort'"
  by (simp add: dispatch_def settle_two_passes pass_simps handler_defs)


section \<open>Properties of the category picker\<close>

lemma array_find_match:
  "\<exists>c \<in> set xs. predicate c \<Longrightarrow>
   \<exists>c. array_find predicate xs = Defined c \<and> c \<in> set xs \<and> predicate c"
  by (induction xs) auto

lemma array_find_no_match:
  "\<forall>c \<in> set xs. \<not> predicate c \<Longrightarrow> array_find predicate xs = Undefined"
  by (induction xs) auto

text \<open>
  C10. When \<open>selectedCategoryId\<close> is set (a non-empty string) and is the id of a category
  of the list, \<^verbatim>\<open>renderCategories\<close> does not raise and renders exactly one pill: that of
  a category of the list with this id, at index 0, marked selected, its click
  deselecting.
\<close>

theorem selected_category_renders_one_pill:
  assumes "selectedCategoryId = Defined sid" and "sid \<noteq> []"
    and "\<exists>c \<in> set categories. Category.id' c = sid"
  shows "\<exists>c. c \<in> set categories \<and> Category.id' c = sid
           \<and> renderCategories categories selectedCategoryId expanded =
               Inr [\<lparr>index = 0, isSelected = True, isExpanded = expanded, key = sid,
                     CategoryPill.title = Category.displayName c,
                     onClick = [deselectCategory]\<rparr>]"
proof -
  obtain c
    where c: "array_find (\<lambda>e. Defined (Category.id' e) = Defined sid) categories = Defined c"
      "c \<in> set categories" "Category.id' c = sid"
    using array_find_match [of categories "\<lambda>e. Defined (Category.id' e) = Defined sid"]
      assms(3)
    by auto
  show ?thesis
    using c assms(1,2) by (intro exI [of _ c]) (simp add: renderCategories_def)
qed

theorem selected_category_renders_one_pill_witness:
  "(\<exists>c \<in> set two_categories. Category.id' c = ''categories/unsplash:animals'')
   \<and> renderCategories two_categories (Defined ''categories/unsplash:animals'') False =
       Inr [\<lparr>index = 0, isSelected = True, isExpanded = False,
             key = ''categories/unsplash:animals'', CategoryPill.title = ''Animals'',
             onClick = [deselectCategory]\<rparr>]"
proof -
  have h: "\<exists>c \<in> set two_categories. Category.id' c = ''categories/unsplash:animals''"
    by (simp add: two_categories_def)
  obtain c where c: "c \<in> set two_categories"
      "Category.id' c = ''categories/unsplash:animals''"
    and r: "renderCategories two_categories (Defined ''categories/unsplash:animals'') False =
      Inr [\<lparr>index = 0, isSelected = True, isExpanded = False,
            key = ''categories/unsplash:animals'',
            CategoryPill.title = Category.displayName c, onClick = [deselectCategory]\<rparr>]"
    using selected_category_renders_one_pill
      [of "Defined ''categories/unsplash:animals''" "''categories/unsplash:animals''"
        two_categories False, OF refl _ h]
    by auto
  have "Category.displayName c = ''Animals''"
    using c by (auto simp: two_categories_def)
  with r h show ?thesis by simp
qed

text \<open>
  The branch the precondition excludes: a selected id that no category of the list has
  makes \<^verbatim>\<open>find\<close> return \<^verbatim>\<open>undefined\<close>, and reading its \<^verbatim>\<open>id\<close> raises.
\<close>

lemma missing_category_raises:
  assumes "selectedCategoryId = Defined sid" and "sid \<noteq> []"
    and "\<forall>c \<in> set categories. Category.id' c \<noteq> sid"
  shows "renderCategories categories selectedCategoryId expanded = Inl TypeError"
  using assms array_find_no_match [of categories "\<lambda>e. Defined (Category.id' e) = Defined sid"]
  by (simp add: renderCategories_def)

text \<open>With no category selected every category gets its pill.\<close>

lemma array_map_defined:
  "\<exists>ps. array_map (renderCategory sel expanded) i (map Defined cs) = Inr ps
        \<and> length ps = length cs"
proof (induction cs arbitrary: i)
  case Nil
  show ?case by simp
next
  case (Cons c cs)
  obtain ps where "array_map (renderCategory sel expanded) (Suc i) (map Defined cs) = Inr ps"
    and "length ps = length cs"
    using Cons.IH [of "Suc i"] by blast
  then show ?case by (simp add: Let_def)
qed

lemma no_selection_renders_all:
  "\<not> truthy selectedCategoryId \<Longrightarrow>
   \<exists>ps. renderCategories categories selectedCategoryId expanded = Inr ps
        \<and> length ps = length categories"
  by (simp add: renderCategories_def array_map_defined)

end
